theory Spec2Isabelle
  imports Complex_Main "HOL-Library.Sublist" "HOL-Library.Word"
begin

section \<open>Python strings\<close>

text \<open>
  A Python \<^verbatim>\<open>str\<close> is a sequence of Unicode code points; a code point is modelled
  as a natural number. \<open>ascii\<close> turns an ASCII literal into such a sequence.
\<close>

type_synonym pystr = "nat list"

definition ascii :: "string \<Rightarrow> pystr" where
  "ascii s = map of_char s"

text \<open>
  \<^verbatim>\<open>str.isspace\<close> for one code point: the code points CPython classifies as whitespace
  (\<^verbatim>\<open>_PyUnicode_IsWhitespace\<close>).
\<close>

definition isspace :: "nat \<Rightarrow> bool" where
  "isspace c \<longleftrightarrow>
     (0x09 \<le> c \<and> c \<le> 0x0D) \<or> (0x1C \<le> c \<and> c \<le> 0x20) \<or> c = 0x85 \<or> c = 0xA0 \<or>
     c = 0x1680 \<or> (0x2000 \<le> c \<and> c \<le> 0x200A) \<or> c = 0x2028 \<or> c = 0x2029 \<or>
     c = 0x202F \<or> c = 0x205F \<or> c = 0x3000"

text \<open>\<^verbatim>\<open>str.strip()\<close> with no argument: leading and trailing whitespace is removed.\<close>

definition strip :: "pystr \<Rightarrow> pystr" where
  "strip s = rev (dropWhile isspace (rev (dropWhile isspace s)))"

section \<open>The prompt builder\<close>

text \<open>
  \<^verbatim>\<open>build_llm_prompt\<close> (app.py, lines 64-90): adjacent literals and one f-string,
  concatenated. The hyphen of "world-class" in the source is U+2011.
\<close>

definition build_llm_prompt :: "pystr \<Rightarrow> pystr" where
  "build_llm_prompt plot =
     ascii ''You are a world'' @ [0x2011] @
     ascii ''class movie identification assistant. Given a plot description, you '' @
     ascii ''search the internet for clues (even though you rely on your own knowledge) and deduce '' @
     ascii ''the most likely movie. You must provide four fields: movie_name, release_date, '' @
     ascii ''rationale, and confidence. The rationale should explain why the selected movie fits '' @
     ascii ''the description, referencing key plot points, actors, or unique elements. Confidence '' @
     ascii ''should be a float between 0 and 1 representing your certainty.\<newline>\<newline>'' @
     (ascii ''Plot: '' @ plot @ ascii ''\<newline>\<newline>'') @
     ascii ''Respond with a JSON object using these exact keys: movie_name, release_date, rationale, '' @
     ascii ''confidence.''"

section \<open>The external services\<close>

subsection \<open>The chat completion call\<close>

text \<open>The keyword arguments of \<^verbatim>\<open>openai.chat.completions.create\<close>; a message is a
  (role, content) pair; the two sampling parameters are kept as the decimal values of
  their literals.\<close>

record chat_request =
  model :: pystr
  messages :: "(pystr \<times> pystr) list"
  max_tokens :: int
  temperature :: rat
  top_p :: rat

text \<open>What the call returns: \<^verbatim>\<open>completion.choices[i].message.content\<close>, where the
  content is \<^verbatim>\<open>Optional[str]\<close>.\<close>

record chat_message =
  content :: "pystr option"

record choice =
  message :: chat_message

record chat_completion =
  choices :: "choice list"

subsection \<open>Exceptions of external calls\<close>

text \<open>
  An exception raised by an external call, by the most specific of the classes the
  handler's \<^verbatim>\<open>except\<close> clauses name, with its \<^verbatim>\<open>str()\<close>:
  a \<^verbatim>\<open>json.JSONDecodeError\<close>, any other instance of \<^verbatim>\<open>Exception\<close>, or a
  \<^verbatim>\<open>BaseException\<close> that is not an \<^verbatim>\<open>Exception\<close>.
\<close>

datatype raised = JSONDecodeError pystr | Exception pystr | BaseException pystr

fun isinstance_Exception :: "raised \<Rightarrow> bool" where
  "isinstance_Exception (JSONDecodeError _) = True"
| "isinstance_Exception (Exception _) = True"
| "isinstance_Exception (BaseException _) = False"

fun isinstance_JSONDecodeError :: "raised \<Rightarrow> bool" where
  "isinstance_JSONDecodeError (JSONDecodeError _) = True"
| "isinstance_JSONDecodeError (Exception _) = False"
| "isinstance_JSONDecodeError (BaseException _) = False"

fun exn_str :: "raised \<Rightarrow> pystr" where
  "exn_str (JSONDecodeError s) = s"
| "exn_str (Exception s) = s"
| "exn_str (BaseException s) = s"

subsection \<open>Values returned by \<^verbatim>\<open>json.loads\<close>\<close>

text \<open>A Python float is an IEEE 754 double, kept as its 64 bits.\<close>

type_synonym pyfloat = "64 word"

datatype json =
    JNull
  | JBool bool
  | JInt int
  | JFloat pyfloat
  | JStr pystr
  | JList "json list"
  | JDict "pystr \<Rightarrow> json option"

text \<open>
  Python's conversion of an \<^verbatim>\<open>int\<close> to a \<^verbatim>\<open>float\<close>: round to 53 significant
  bits, ties to even; \<^verbatim>\<open>OverflowError\<close> (here \<open>None\<close>) when the result does not fit
  a double.
\<close>

fun bit_length :: "nat \<Rightarrow> nat" where
  "bit_length n = (if n = 0 then 0 else 1 + bit_length (n div 2))"

declare bit_length.simps [simp del]

definition float_of_int :: "int \<Rightarrow> pyfloat option" where
  "float_of_int n =
     (if n = 0 then Some 0
      else
        let m = nat \<bar>n\<bar>;
            nb = bit_length m;
            q = (if nb \<le> 53 then m * 2 ^ (53 - nb)
                 else
                   let sh = nb - 53; q0 = m div 2 ^ sh; r = m mod 2 ^ sh; half = 2 ^ (sh - 1)
                   in if half < r \<or> (r = half \<and> odd q0) then q0 + 1 else q0);
            e = (if q = 2 ^ 53 then nb + 1 else nb);
            q = (if q = 2 ^ 53 then 2 ^ 52 else q)
        in if 1024 < e then None
           else Some (word_of_nat
                  ((if n < 0 then 2 ^ 63 else 0) + (e + 1022) * 2 ^ 52 + (q - 2 ^ 52))))"

section \<open>The request and response models\<close>

record IdentifyRequest =
  User_query :: pystr

record IdentifyResponse =
  movie_name :: pystr
  release_date :: pystr
  rationale :: pystr
  confidence :: pyfloat

text \<open>
  \<^verbatim>\<open>IdentifyResponse(**result)\<close> (app.py, line 141), for the class declared in lines
  54-61. Unpacking a value that is not a mapping raises \<^verbatim>\<open>TypeError\<close>. Otherwise
  pydantic (version 2, with the model's default configuration) validates the four
  declared fields in their order, in lax mode: a required field that is absent is an
  error; a \<^verbatim>\<open>str\<close> field takes a string as it is and nothing else; a \<^verbatim>\<open>float\<close>
  field takes a float as it is, converts an int or a bool with Python's int-to-float
  conversion, and parses a string as a number (\<open>fos\<close>, the library's parser of numeric
  strings, is a parameter). Keys that name no field are ignored. All field errors are
  collected into one \<^verbatim>\<open>ValidationError\<close>.
\<close>

datatype error_type = Missing | String_type | Float_type | Float_parsing

type_synonym line_error = "pystr \<times> error_type"

datatype init_error = TypeError | ValidationError "line_error list"

fun validate_str :: "json \<Rightarrow> error_type + pystr" where
  "validate_str (JStr s) = Inr s"
| "validate_str _ = Inl String_type"

fun validate_float :: "(pystr \<Rightarrow> pyfloat option) \<Rightarrow> json \<Rightarrow> error_type + pyfloat" where
  "validate_float fos (JFloat x) = Inr x"
| "validate_float fos (JStr s) =
     (case fos s of None \<Rightarrow> Inl Float_parsing | Some x \<Rightarrow> Inr x)"
| "validate_float fos (JInt n) =
     (case float_of_int n of None \<Rightarrow> Inl Float_type | Some x \<Rightarrow> Inr x)"
| "validate_float fos (JBool b) =
     (case float_of_int (if b then 1 else 0) of None \<Rightarrow> Inl Float_type | Some x \<Rightarrow> Inr x)"
| "validate_float fos _ = Inl Float_type"

definition validate_field ::
  "(json \<Rightarrow> error_type + 'a) \<Rightarrow> (pystr \<Rightarrow> json option) \<Rightarrow> pystr \<Rightarrow> line_error + 'a" where
  "validate_field validator kwargs name =
     (case kwargs name of
        None \<Rightarrow> Inl (name, Missing)
      | Some v \<Rightarrow> (case validator v of Inl t \<Rightarrow> Inl (name, t) | Inr x \<Rightarrow> Inr x))"

fun errors_of :: "line_error + 'a \<Rightarrow> line_error list" where
  "errors_of (Inl e) = [e]"
| "errors_of (Inr _) = []"

definition IdentifyResponse_init ::
  "(pystr \<Rightarrow> pyfloat option) \<Rightarrow> json \<Rightarrow> init_error + IdentifyResponse" where
  "IdentifyResponse_init fos result =
     (case result of
        JDict kwargs \<Rightarrow>
          (let mn = validate_field validate_str kwargs (ascii ''movie_name'');
               rd = validate_field validate_str kwargs (ascii ''release_date'');
               ra = validate_field validate_str kwargs (ascii ''rationale'');
               co = validate_field (validate_float fos) kwargs (ascii ''confidence'')
           in case (mn, rd, ra, co) of
                (Inr a, Inr b, Inr c, Inr x) \<Rightarrow>
                  Inr \<lparr>movie_name = a, release_date = b, rationale = c, confidence = x\<rparr>
              | _ \<Rightarrow> Inl (ValidationError
                         (errors_of mn @ errors_of rd @ errors_of ra @ errors_of co)))
      | _ \<Rightarrow> Inl TypeError)"

section \<open>The handler\<close>

text \<open>
  What the handler calls and does not define: the completion service (\<open>create\<close>; its
  first argument is the number of calls made before this one, so that a second call
  may answer differently from the first), \<^verbatim>\<open>json.loads\<close>, pydantic's parser of numeric
  strings, and \<^verbatim>\<open>str()\<close> of the exception that \<^verbatim>\<open>IdentifyResponse(**result)\<close>
  raises.
\<close>

record extern =
  create :: "nat \<Rightarrow> chat_request \<Rightarrow> raised + chat_completion"
  json_loads :: "pystr \<Rightarrow> raised + json"
  float_of_str :: "pystr \<Rightarrow> pyfloat option"
  exc_str :: "init_error \<Rightarrow> pystr"

text \<open>
  How a call of the handler ends when it does not return: the \<^verbatim>\<open>HTTPException\<close> of
  one of its three \<^verbatim>\<open>raise\<close> statements, the \<^verbatim>\<open>IndexError\<close> of \<^verbatim>\<open>choices[0]\<close> on
  an empty list, the \<^verbatim>\<open>AttributeError\<close> of \<^verbatim>\<open>None.strip()\<close>, or an exception of an
  external call that no \<^verbatim>\<open>except\<close> clause catches.
\<close>

datatype py_exn =
    HTTPException nat pystr
  | IndexError
  | AttributeError
  | Propagated raised

text \<open>The arguments of the one \<^verbatim>\<open>create\<close> call (app.py, lines 114-123).\<close>

definition create_kwargs :: "pystr \<Rightarrow> chat_request" where
  "create_kwargs prompt =
     \<lparr>model = ascii ''gpt-4o'',
      messages = [(ascii ''system'', ascii ''You are a helpful assistant.''),
                  (ascii ''user'', prompt)],
      max_tokens = 400,
      temperature = 3 / 10,
      top_p = 95 / 100\<rparr>"

text \<open>
  \<^verbatim>\<open>identify_movie\<close> (app.py, lines 93-148). \<open>sent\<close> is the list of requests sent to
  the completion service so far; the handler returns it extended by its own.
\<close>

definition identify_movie ::
  "extern \<Rightarrow> chat_request list \<Rightarrow> IdentifyRequest
     \<Rightarrow> (py_exn + IdentifyResponse) \<times> chat_request list" where
  "identify_movie ext sent req =
     (let prompt = build_llm_prompt (User_query req);
          request = create_kwargs prompt
      in (case create ext (length sent) request of
            Inl e \<Rightarrow>
              if isinstance_Exception e
              then Inl (HTTPException 500 (ascii ''OpenAI API error: '' @ exn_str e))
              else Inl (Propagated e)
          | Inr completion \<Rightarrow>
              (case choices completion of
                 [] \<Rightarrow> Inl IndexError
               | first # _ \<Rightarrow>
                   (case content (message first) of
                      None \<Rightarrow> Inl AttributeError
                    | Some text \<Rightarrow>
                        (let content = strip text
                         in case json_loads ext content of
                              Inl exc \<Rightarrow>
                                if isinstance_JSONDecodeError exc
                                then Inl (HTTPException 500
                                       (ascii ''Failed to parse response as JSON. Raw response was: ''
                                        @ content))
                                else Inl (Propagated exc)
                            | Inr result \<Rightarrow>
                                (case IdentifyResponse_init (float_of_str ext) result of
                                   Inl exc \<Rightarrow>
                                     Inl (HTTPException 500
                                       (ascii ''Response JSON missing required fields or invalid types: ''
                                        @ exc_str ext exc))
                                 | Inr response \<Rightarrow> Inr response)))),
          sent @ [request]))"

section \<open>Stubbed services\<close>

text \<open>
  Stand-ins for the external services, for running the handler on concrete inputs: a
  completion service that answers its calls from a script, a \<^verbatim>\<open>json.loads\<close> that
  knows the parses of the listed texts and raises \<^verbatim>\<open>JSONDecodeError\<close> on any other,
  a table of numeric strings, and a rendering of the validation exception that lists
  the fields in error.
\<close>

definition choice_of :: "pystr \<Rightarrow> choice" where
  "choice_of reply = \<lparr>message = \<lparr>content = Some reply\<rparr>\<rparr>"

definition completion_of :: "pystr \<Rightarrow> chat_completion" where
  "completion_of reply = \<lparr>choices = [choice_of reply]\<rparr>"

definition stub_loads :: "(pystr \<times> json) list \<Rightarrow> pystr \<Rightarrow> raised + json" where
  "stub_loads parses s =
     (case map_of parses s of
        None \<Rightarrow> Inl (JSONDecodeError (ascii ''Expecting value: line 1 column 1 (char 0)''))
      | Some v \<Rightarrow> Inr v)"

fun stub_exc_str :: "init_error \<Rightarrow> pystr" where
  "stub_exc_str TypeError = ascii ''argument after ** must be a mapping''"
| "stub_exc_str (ValidationError errs) =
     ascii ''validation errors for IdentifyResponse:'' @ concat (map (\<lambda>(name, t). 32 # name) errs)"

definition stub_extern ::
  "(raised + chat_completion) list \<Rightarrow> (pystr \<times> json) list \<Rightarrow> (pystr \<times> pyfloat) list
     \<Rightarrow> extern" where
  "stub_extern answers parses floats =
     \<lparr>create = (\<lambda>n request. if n < length answers then answers ! n
                             else Inl (BaseException (ascii ''no answer left''))),
      json_loads = stub_loads parses,
      float_of_str = map_of floats,
      exc_str = stub_exc_str\<rparr>"

text \<open>The example object of the specification, with the text of its confidence left
  open, and the value \<^verbatim>\<open>json.loads\<close> returns for it.\<close>

definition inception_text :: "pystr \<Rightarrow> pystr" where
  \<open>inception_text conf =
     ascii ''{"movie_name":"Inception","release_date":"2010-07-16","rationale":"dream heist","confidence":''
     @ conf @ ascii ''}''\<close>

definition inception_object :: "json \<Rightarrow> pystr \<Rightarrow> json option" where
  "inception_object conf =
     [ascii ''movie_name'' \<mapsto> JStr (ascii ''Inception''),
      ascii ''release_date'' \<mapsto> JStr (ascii ''2010-07-16''),
      ascii ''rationale'' \<mapsto> JStr (ascii ''dream heist''),
      ascii ''confidence'' \<mapsto> conf]"

text \<open>The same object with the integer \<open>10 ^ 309\<close> as its confidence: the digit 1
  followed by 309 zeros.\<close>

definition big_int_text :: pystr where
  "big_int_text = inception_text (ascii ''1'' @ replicate 309 (of_char CHR ''0''))"

definition plot_query :: IdentifyRequest where
  "plot_query = \<lparr>User_query = ascii ''A thief steals secrets by entering dreams.''\<rparr>"

text \<open>The example object with an additional key, and with its confidence left out.\<close>

definition extra_key_text :: pystr where
  \<open>extra_key_text =
     ascii ''{"movie_name":"Inception","release_date":"2010-07-16","rationale":"dream heist","confidence":0.87,"year":2010}''\<close>

text \<open>The object with an additional key and the integer 1 as its confidence, and
  with an additional key and the integer \<open>10 ^ 309\<close> as its confidence.\<close>

definition int_extra_key_text :: pystr where
  \<open>int_extra_key_text =
     ascii ''{"movie_name":"Inception","release_date":"2010-07-16","rationale":"dream heist","confidence":1,"year":2010}''\<close>

definition big_int_extra_key_text :: pystr where
  \<open>big_int_extra_key_text =
     inception_text (ascii ''1'' @ replicate 309 (of_char CHR ''0'') @ ascii '',"year":2010'')\<close>

definition missing_confidence_text :: pystr where
  \<open>missing_confidence_text =
     ascii ''{"movie_name":"Inception","release_date":"2010-07-16","rationale":"dream heist"}''\<close>

definition missing_confidence_object :: "pystr \<Rightarrow> json option" where
  "missing_confidence_object =
     [ascii ''movie_name'' \<mapsto> JStr (ascii ''Inception''),
      ascii ''release_date'' \<mapsto> JStr (ascii ''2010-07-16''),
      ascii ''rationale'' \<mapsto> JStr (ascii ''dream heist'')]"

section \<open>Auxiliary facts\<close>

subsection \<open>Strings\<close>

lemma ascii_append: "ascii (s @ t) = ascii s @ ascii t"
  by (simp add: ascii_def)

lemma ascii_eq_iff [simp]: "ascii s = ascii t \<longleftrightarrow> s = t"
  unfolding ascii_def by (rule inj_map_eq_map) (rule inj_of_char)

lemma dropWhile_isspace_append:
  assumes "\<forall>c\<in>set ws. isspace c"
  shows "dropWhile isspace (ws @ s) = dropWhile isspace s"
  using assms by (induction ws) simp_all

lemma strip_surrounded:
  assumes lead: "\<forall>c\<in>set ws1. isspace c"
      and trail: "\<forall>c\<in>set ws2. isspace c"
      and ne: "body \<noteq> []"
      and first: "\<not> isspace (hd body)"
      and final: "\<not> isspace (last body)"
  shows "strip (ws1 @ body @ ws2) = body"
proof -
  have a: "dropWhile isspace (ws1 @ body @ ws2) = body @ ws2"
    using lead ne first by (cases body) (simp_all add: dropWhile_isspace_append)
  have "\<forall>c\<in>set (rev ws2). isspace c" using trail by simp
  then have "dropWhile isspace (rev ws2 @ rev body) = dropWhile isspace (rev body)"
    by (rule dropWhile_isspace_append)
  moreover have "dropWhile isspace (rev body) = rev body"
    using ne final by (cases "rev body") (auto simp: last_rev hd_rev)
  ultimately show ?thesis
    by (simp add: strip_def a)
qed

lemma strip_braces:
  assumes "\<forall>c\<in>set ws1. isspace c" and "\<forall>c\<in>set ws2. isspace c"
  shows "strip (ws1 @ (ascii ''{'' @ mid @ ascii ''}'') @ ws2) = ascii ''{'' @ mid @ ascii ''}''"
  using assms by (intro strip_surrounded) (simp_all add: ascii_def isspace_def)

lemma strip_id:
  assumes "s \<noteq> []" and "\<not> isspace (hd s)" and "\<not> isspace (last s)"
  shows "strip s = s"
  using strip_surrounded [of "[]" "[]" s] assms by simp

lemma strip_inception_text [simp]: "strip (inception_text conf) = inception_text conf"
  by (rule strip_id) (simp_all add: inception_text_def ascii_def isspace_def)

lemma strip_big_int_text [simp]: "strip big_int_text = big_int_text"
  by (simp only: big_int_text_def strip_inception_text)

lemma strip_fixture_texts [simp]:
  "strip extra_key_text = extra_key_text"
  "strip missing_confidence_text = missing_confidence_text"
  by (rule strip_id; simp add: extra_key_text_def missing_confidence_text_def ascii_def isspace_def)+

lemma strip_int_extra_key_text [simp]: "strip int_extra_key_text = int_extra_key_text"
  by (rule strip_id) (simp_all add: int_extra_key_text_def ascii_def isspace_def)

lemma strip_big_int_extra_key_text [simp]:
  "strip big_int_extra_key_text = big_int_extra_key_text"
  by (simp only: big_int_extra_key_text_def strip_inception_text)

lemma inception_text_braces:
  \<open>inception_text conf =
     ascii ''{'' @
     (ascii ''"movie_name":"Inception","release_date":"2010-07-16","rationale":"dream heist","confidence":''
      @ conf) @ ascii ''}''\<close>
  by (simp add: inception_text_def ascii_append [symmetric])

lemma detail_prefixes_differ:
  "ascii ''Response JSON missing required fields or invalid types: '' @ s \<noteq>
   ascii ''Failed to parse response as JSON. Raw response was: '' @ t"
  by (simp add: ascii_def)

subsection \<open>Conversion of integers to floats\<close>

lemma bit_length_gt: "2 ^ k \<le> m \<Longrightarrow> k < bit_length m"
proof (induction k arbitrary: m)
  case 0
  then show ?case by (subst bit_length.simps) simp
next
  case (Suc k)
  then have "2 ^ k \<le> m div 2" by simp
  then have "k < bit_length (m div 2)" by (rule Suc.IH)
  moreover have "0 < (2::nat) ^ Suc k" by simp
  then have "m \<noteq> 0" using Suc.prems by linarith
  ultimately show ?case by (subst bit_length.simps) simp
qed

lemma bit_length_abs_gt:
  assumes "2 ^ k \<le> \<bar>n\<bar>"
  shows "k < bit_length (nat \<bar>n\<bar>)"
proof -
  have "(2::nat) ^ k \<le> nat \<bar>n\<bar>"
    using assms by (simp add: le_nat_iff)
  then show ?thesis by (rule bit_length_gt)
qed

lemma float_of_int_big:
  assumes bl: "1024 < bit_length (nat \<bar>n\<bar>)"
  shows "float_of_int n = None"
proof -
  have "bit_length 0 = 0" by (simp add: bit_length.simps)
  then have nz: "n \<noteq> 0" using bl by auto
  define nb where "nb = bit_length (nat \<bar>n\<bar>)"
  have "1024 < (if c then nb + 1 else nb)" for c
    using bl by (simp add: nb_def)
  then show ?thesis
    using nz unfolding float_of_int_def Let_def nb_def by simp
qed

lemma float_of_int_overflow:
  assumes "2 ^ 1024 \<le> \<bar>n\<bar>"
  shows "float_of_int n = None"
  using assms by (intro float_of_int_big bit_length_abs_gt)

lemma float_of_int_10_309: "float_of_int (10 ^ 309) = None"
  by (rule float_of_int_overflow) simp

lemma float_of_int_1: "float_of_int 1 = Some 0x3FF0000000000000"
  by (simp add: float_of_int_def bit_length.simps)

subsection \<open>The stubs\<close>

lemma stub_loads_hit [simp]: "stub_loads ((s, v) # parses) s = Inr v"
  by (simp add: stub_loads_def)

lemma stub_loads_miss [simp]:
  "stub_loads [] s = Inl (JSONDecodeError (ascii ''Expecting value: line 1 column 1 (char 0)''))"
  by (simp add: stub_loads_def)


lemma stub_create_first [simp]:
  "create (stub_extern (answer # answers) parses floats) 0 request = answer"
  by (simp add: stub_extern_def)

lemma stub_fields [simp]:
  "json_loads (stub_extern answers parses floats) = stub_loads parses"
  "float_of_str (stub_extern answers parses floats) = map_of floats"
  "exc_str (stub_extern answers parses floats) = stub_exc_str"
  by (simp_all add: stub_extern_def)

lemma completion_of_simps [simp]:
  "choices (completion_of reply) = [choice_of reply]"
  "content (message (choice_of reply)) = Some reply"
  by (simp_all add: completion_of_def choice_of_def)

subsection \<open>The handler, stage by stage\<close>

lemma identify_movie_sent:
  "snd (identify_movie ext sent req) = sent @ [create_kwargs (build_llm_prompt (User_query req))]"
  by (simp add: identify_movie_def Let_def)

lemma identify_movie_extracted:
  assumes "create ext (length sent) (create_kwargs (build_llm_prompt (User_query req))) = Inr completion"
      and "choices completion = first # others"
      and "content (message first) = Some raw"
  shows "fst (identify_movie ext sent req) =
           (case json_loads ext (strip raw) of
              Inl exc \<Rightarrow>
                if isinstance_JSONDecodeError exc
                then Inl (HTTPException 500
                       (ascii ''Failed to parse response as JSON. Raw response was: '' @ strip raw))
                else Inl (Propagated exc)
            | Inr result \<Rightarrow>
                (case IdentifyResponse_init (float_of_str ext) result of
                   Inl exc \<Rightarrow>
                     Inl (HTTPException 500
                       (ascii ''Response JSON missing required fields or invalid types: ''
                        @ exc_str ext exc))
                 | Inr response \<Rightarrow> Inr response))"
  using assms by (simp add: identify_movie_def Let_def)

lemma IdentifyResponse_init_valid:
  assumes "kwargs (ascii ''movie_name'') = Some (JStr a)"
      and "kwargs (ascii ''release_date'') = Some (JStr b)"
      and "kwargs (ascii ''rationale'') = Some (JStr c)"
      and "kwargs (ascii ''confidence'') = Some v"
      and "validate_float fos v = Inr x"
  shows "IdentifyResponse_init fos (JDict kwargs) =
           Inr \<lparr>movie_name = a, release_date = b, rationale = c, confidence = x\<rparr>"
  using assms by (simp add: IdentifyResponse_init_def validate_field_def)

lemma validate_field_str_invalid:
  assumes "\<forall>s. kwargs name \<noteq> Some (JStr s)"
  shows "\<exists>t. validate_field validate_str kwargs name = Inl (name, t)"
proof (cases "kwargs name")
  case None
  then show ?thesis by (simp add: validate_field_def)
next
  case (Some v)
  then have "\<forall>s. v \<noteq> JStr s" using assms by simp
  then have "validate_str v = Inl String_type" by (cases v) simp_all
  then show ?thesis using Some by (simp add: validate_field_def)
qed

lemma IdentifyResponse_init_errors:
  assumes "errs = errors_of (validate_field validate_str kwargs (ascii ''movie_name'')) @
                  errors_of (validate_field validate_str kwargs (ascii ''release_date'')) @
                  errors_of (validate_field validate_str kwargs (ascii ''rationale'')) @
                  errors_of (validate_field (validate_float fos) kwargs (ascii ''confidence''))"
      and "errs \<noteq> []"
  shows "IdentifyResponse_init fos (JDict kwargs) = Inl (ValidationError errs)"
  using assms
  by (cases "validate_field validate_str kwargs (ascii ''movie_name'')";
      cases "validate_field validate_str kwargs (ascii ''release_date'')";
      cases "validate_field validate_str kwargs (ascii ''rationale'')";
      cases "validate_field (validate_float fos) kwargs (ascii ''confidence'')")
     (simp_all add: IdentifyResponse_init_def)

lemma IdentifyResponse_init_inception:
  "IdentifyResponse_init fos (JDict (inception_object (JFloat x))) =
     Inr \<lparr>movie_name = ascii ''Inception'', release_date = ascii ''2010-07-16'',
          rationale = ascii ''dream heist'', confidence = x\<rparr>"
  by (simp add: IdentifyResponse_init_def validate_field_def inception_object_def)

section \<open>The claims\<close>

text \<open>
  In the theorems below, a call of the handler reaches the parse stage when the
  completion call returns, the returned list of choices is not empty, and the first
  choice carries a text \<open>raw\<close>; the text handed to \<^verbatim>\<open>json.loads\<close> is \<open>strip raw\<close>.
  The three \<^verbatim>\<open>HTTPException\<close>s of the handler are told apart by their detail: what
  the specification calls UpstreamError, MalformedResponseError and
  SchemaValidationError.
\<close>

subsection \<open>C1: valid fields are passed through\<close>

text \<open>
  C1 (as amended). Suppose the trimmed completion text parses as a JSON object whose
  \<open>movie_name\<close>, \<open>release_date\<close> and \<open>rationale\<close> are strings and whose \<open>confidence\<close>
  is a float, or an integer that Python converts to a float. Then the handler returns
  an IdentifyResponse holding the three strings as they are and the confidence as that
  float (for an integer, its conversion): nothing is clamped or normalised.
\<close>

theorem identify_movie_passes_fields_through:
  assumes "create ext (length sent) (create_kwargs (build_llm_prompt (User_query req))) = Inr completion"
      and "choices completion = first # others"
      and "content (message first) = Some raw"
      and "json_loads ext (strip raw) = Inr (JDict kwargs)"
      and "kwargs (ascii ''movie_name'') = Some (JStr a)"
      and "kwargs (ascii ''release_date'') = Some (JStr b)"
      and "kwargs (ascii ''rationale'') = Some (JStr c)"
      and "kwargs (ascii ''confidence'') = Some v"
      and "v = JFloat x \<or> (\<exists>n. v = JInt n \<and> float_of_int n = Some x)"
  shows "fst (identify_movie ext sent req) =
           Inr \<lparr>movie_name = a, release_date = b, rationale = c, confidence = x\<rparr>"
proof -
  have "validate_float (float_of_str ext) v = Inr x"
    using assms(9) by auto
  then have "IdentifyResponse_init (float_of_str ext) (JDict kwargs) =
      Inr \<lparr>movie_name = a, release_date = b, rationale = c, confidence = x\<rparr>"
    using assms(5-8) by (intro IdentifyResponse_init_valid)
  then show ?thesis
    using identify_movie_extracted [OF assms(1-3)] assms(4) by simp
qed

text \<open>The example of the specification: the stubbed upstream returns the Inception
  object with confidence 0.87 (the double \<open>0x3FEBD70A3D70A3D7\<close>).\<close>

theorem identify_movie_passes_fields_through_witness:
  "fst (identify_movie
      (stub_extern [Inr (completion_of (inception_text (ascii ''0.87'')))]
         [(inception_text (ascii ''0.87''), JDict (inception_object (JFloat 0x3FEBD70A3D70A3D7)))] [])
      [] plot_query) =
   Inr \<lparr>movie_name = ascii ''Inception'', release_date = ascii ''2010-07-16'',
        rationale = ascii ''dream heist'', confidence = 0x3FEBD70A3D70A3D7\<rparr>"
  by (rule identify_movie_passes_fields_through
        [where completion = "completion_of (inception_text (ascii ''0.87''))"
           and first = "choice_of (inception_text (ascii ''0.87''))"
           and others = "[]"
           and raw = "inception_text (ascii ''0.87'')"
           and kwargs = "inception_object (JFloat 0x3FEBD70A3D70A3D7)"
           and v = "JFloat 0x3FEBD70A3D70A3D7"])
     (simp_all add: inception_object_def)

text \<open>
  C1 as stated fails for a confidence that is a number but too large for a float: the
  text parses as an object with three strings and the integer \<open>10 ^ 309\<close>, the
  conversion to \<^verbatim>\<open>float\<close> overflows, and the handler raises the HTTPException of the
  validation stage instead of returning.
\<close>

theorem identify_movie_big_int_counterexample:
  "json_loads
     (stub_extern [Inr (completion_of big_int_text)]
        [(big_int_text, JDict (inception_object (JInt (10 ^ 309))))] [])
     (strip big_int_text) = Inr (JDict (inception_object (JInt (10 ^ 309)))) \<and>
   fst (identify_movie
      (stub_extern [Inr (completion_of big_int_text)]
         [(big_int_text, JDict (inception_object (JInt (10 ^ 309))))] [])
      [] plot_query) =
   Inl (HTTPException 500
     (ascii ''Response JSON missing required fields or invalid types: ''
      @ stub_exc_str (ValidationError [(ascii ''confidence'', Float_type)])))"
proof -
  let ?E = "stub_extern [Inr (completion_of big_int_text)]
        [(big_int_text, JDict (inception_object (JInt (10 ^ 309))))] []"
  have l: "json_loads ?E (strip big_int_text) = Inr (JDict (inception_object (JInt (10 ^ 309))))"
    by (simp only: stub_fields strip_big_int_text stub_loads_hit)
  have c: "create ?E (length []) (create_kwargs (build_llm_prompt (User_query plot_query)))
      = Inr (completion_of big_int_text)"
    by (simp only: list.size stub_create_first)
  have i: "IdentifyResponse_init fos (JDict (inception_object (JInt (10 ^ 309)))) =
      Inl (ValidationError [(ascii ''confidence'', Float_type)])" for fos
    using float_of_int_10_309
    by (simp add: IdentifyResponse_init_def validate_field_def inception_object_def)
  have "fst (identify_movie ?E [] plot_query) =
      Inl (HTTPException 500
       (ascii ''Response JSON missing required fields or invalid types: ''
        @ exc_str ?E (ValidationError [(ascii ''confidence'', Float_type)])))"
    by (simp only: identify_movie_extracted [OF c completion_of_simps] l i sum.case)
  then show ?thesis
    using l by (simp only: stub_fields simp_thms)
qed

subsection \<open>C2: the prompt embeds the plot and names the four keys\<close>

text \<open>
  C2. For every plot, the empty one included, \<^verbatim>\<open>build_llm_prompt\<close> returns a string
  (it has no failing branch) that contains the plot verbatim and ends with the
  instruction sentence, which names the four keys \<open>movie_name\<close>, \<open>release_date\<close>,
  \<open>rationale\<close> and \<open>confidence\<close> whatever the plot is.
\<close>

theorem build_llm_prompt_embeds_plot_and_keys:
  "let instructions = ascii ''Respond with a JSON object using these exact keys: movie_name, release_date, rationale, confidence.''
   in sublist plot (build_llm_prompt plot) \<and>
      suffix instructions (build_llm_prompt plot) \<and>
      sublist (ascii ''movie_name'') instructions \<and>
      sublist (ascii ''release_date'') instructions \<and>
      sublist (ascii ''rationale'') instructions \<and>
      sublist (ascii ''confidence'') instructions"
proof -
  let ?i = "ascii ''Respond with a JSON object using these exact keys: movie_name, release_date, rationale, confidence.''"
  have split:
    "?i = ascii ''Respond with a JSON object using these exact keys: '' @ ascii ''movie_name'' @ ascii '', release_date, rationale, confidence.''"
    "?i = ascii ''Respond with a JSON object using these exact keys: movie_name, '' @ ascii ''release_date'' @ ascii '', rationale, confidence.''"
    "?i = ascii ''Respond with a JSON object using these exact keys: movie_name, release_date, '' @ ascii ''rationale'' @ ascii '', confidence.''"
    "?i = ascii ''Respond with a JSON object using these exact keys: movie_name, release_date, rationale, '' @ ascii ''confidence'' @ ascii ''.''"
    by (simp_all add: ascii_append [symmetric])
  have k1: "sublist (ascii ''movie_name'') ?i" by (subst split(1)) (rule sublist_appendI)
  have k2: "sublist (ascii ''release_date'') ?i" by (subst split(2)) (rule sublist_appendI)
  have k3: "sublist (ascii ''rationale'') ?i" by (subst split(3)) (rule sublist_appendI)
  have k4: "sublist (ascii ''confidence'') ?i" by (subst split(4)) (rule sublist_appendI)
  have p: "sublist plot (build_llm_prompt plot)"
    by (simp add: build_llm_prompt_def sublist_append del: append.simps)
  have e: "ascii ''Respond with a JSON object using these exact keys: movie_name, release_date, rationale, '' @ ascii ''confidence.'' = ?i"
    by (simp add: ascii_append [symmetric])
  have s: "suffix ?i (build_llm_prompt plot)"
    unfolding build_llm_prompt_def e by (simp add: suffix_append del: append.simps)
  show ?thesis
    unfolding Let_def using p s k1 k2 k3 k4 by (intro conjI)
qed

subsection \<open>C3: an absent or mistyped field fails validation\<close>

text \<open>
  C3 (as amended). Suppose the trimmed completion text parses as a JSON object in
  which a field \<open>name\<close> is offending: it is one of \<open>movie_name\<close>, \<open>release_date\<close>,
  \<open>rationale\<close> and is absent or not a string, or it is \<open>confidence\<close> and is absent,
  null, an array, an object, a string that does not parse as a number, or an integer
  too large for a float. Then the handler raises the HTTPException of the validation
  stage, status 500, whose detail carries the text of a ValidationError that lists
  the offending field: a failure, never a partial response.
\<close>

theorem identify_movie_rejects_invalid_field:
  assumes "create ext (length sent) (create_kwargs (build_llm_prompt (User_query req))) = Inr completion"
      and "choices completion = first # others"
      and "content (message first) = Some raw"
      and "json_loads ext (strip raw) = Inr (JDict kwargs)"
      and "name \<in> {ascii ''movie_name'', ascii ''release_date'', ascii ''rationale''} \<and>
             (\<forall>s. kwargs name \<noteq> Some (JStr s)) \<or>
           name = ascii ''confidence'' \<and>
             (case kwargs name of
                None \<Rightarrow> True
              | Some JNull \<Rightarrow> True
              | Some (JList xs) \<Rightarrow> True
              | Some (JDict m) \<Rightarrow> True
              | Some (JStr s) \<Rightarrow> float_of_str ext s = None
              | Some (JInt n) \<Rightarrow> float_of_int n = None
              | Some (JBool b) \<Rightarrow> False
              | Some (JFloat x) \<Rightarrow> False)"
  shows "\<exists>errs. name \<in> fst ` set errs \<and>
           fst (identify_movie ext sent req) =
             Inl (HTTPException 500
               (ascii ''Response JSON missing required fields or invalid types: ''
                @ exc_str ext (ValidationError errs)))"
proof -
  define errs where
    "errs = errors_of (validate_field validate_str kwargs (ascii ''movie_name'')) @
            errors_of (validate_field validate_str kwargs (ascii ''release_date'')) @
            errors_of (validate_field validate_str kwargs (ascii ''rationale'')) @
            errors_of (validate_field (validate_float (float_of_str ext)) kwargs (ascii ''confidence''))"
  have "name \<in> fst ` set errs"
    using assms(5)
  proof (elim disjE conjE)
    assume "name \<in> {ascii ''movie_name'', ascii ''release_date'', ascii ''rationale''}"
      and "\<forall>s. kwargs name \<noteq> Some (JStr s)"
    then show ?thesis
      using validate_field_str_invalid [of kwargs name]
      by (auto simp: errs_def)
  next
    assume n: "name = ascii ''confidence''"
      and "case kwargs name of
                None \<Rightarrow> True
              | Some JNull \<Rightarrow> True
              | Some (JList xs) \<Rightarrow> True
              | Some (JDict m) \<Rightarrow> True
              | Some (JStr s) \<Rightarrow> float_of_str ext s = None
              | Some (JInt n) \<Rightarrow> float_of_int n = None
              | Some (JBool b) \<Rightarrow> False
              | Some (JFloat x) \<Rightarrow> False"
    then have "\<exists>t. validate_field (validate_float (float_of_str ext)) kwargs name = Inl (name, t)"
      by (auto simp: validate_field_def split: option.splits json.splits)
    then show ?thesis
      using n by (auto simp: errs_def)
  qed
  moreover from this have "errs \<noteq> []" by auto
  then have "IdentifyResponse_init (float_of_str ext) (JDict kwargs) = Inl (ValidationError errs)"
    using errs_def by (intro IdentifyResponse_init_errors)
  ultimately show ?thesis
    using identify_movie_extracted [OF assms(1-3)] assms(4) by auto
qed

text \<open>The example of the specification: valid JSON that lacks \<open>confidence\<close>.\<close>

theorem identify_movie_rejects_invalid_field_witness:
  "\<exists>errs. ascii ''confidence'' \<in> fst ` set errs \<and>
     fst (identify_movie
        (stub_extern [Inr (completion_of missing_confidence_text)]
           [(missing_confidence_text, JDict missing_confidence_object)] [])
        [] plot_query) =
     Inl (HTTPException 500
       (ascii ''Response JSON missing required fields or invalid types: ''
        @ stub_exc_str (ValidationError errs)))"
  using identify_movie_rejects_invalid_field
    [where ext = "stub_extern [Inr (completion_of missing_confidence_text)]
           [(missing_confidence_text, JDict missing_confidence_object)] []"
       and sent = "[]" and req = plot_query
       and completion = "completion_of missing_confidence_text"
       and first = "choice_of missing_confidence_text" and others = "[]"
       and raw = missing_confidence_text
       and kwargs = missing_confidence_object
       and name = "ascii ''confidence''"]
  by (simp add: missing_confidence_object_def)

text \<open>
  C3 as stated fails for a confidence of another type that pydantic converts: here the
  object carries the confidence as the string \<open>"0.87"\<close>, not as a number, and the
  handler returns the response with the confidence 0.87.
\<close>

theorem identify_movie_numeric_string_counterexample:
  \<open>json_loads
     (stub_extern [Inr (completion_of (inception_text (ascii ''"0.87"'')))]
        [(inception_text (ascii ''"0.87"''), JDict (inception_object (JStr (ascii ''0.87''))))]
        [(ascii ''0.87'', 0x3FEBD70A3D70A3D7)])
     (strip (inception_text (ascii ''"0.87"'')))
     = Inr (JDict (inception_object (JStr (ascii ''0.87'')))) \<and>
   fst (identify_movie
      (stub_extern [Inr (completion_of (inception_text (ascii ''"0.87"'')))]
         [(inception_text (ascii ''"0.87"''), JDict (inception_object (JStr (ascii ''0.87''))))]
         [(ascii ''0.87'', 0x3FEBD70A3D70A3D7)])
      [] plot_query) =
   Inr \<lparr>movie_name = ascii ''Inception'', release_date = ascii ''2010-07-16'',
        rationale = ascii ''dream heist'', confidence = 0x3FEBD70A3D70A3D7\<rparr>\<close>
proof -
  let ?E = \<open>stub_extern [Inr (completion_of (inception_text (ascii ''"0.87"'')))]
         [(inception_text (ascii ''"0.87"''), JDict (inception_object (JStr (ascii ''0.87''))))]
         [(ascii ''0.87'', 0x3FEBD70A3D70A3D7)]\<close>
  have c: \<open>create ?E (length []) (create_kwargs (build_llm_prompt (User_query plot_query)))
      = Inr (completion_of (inception_text (ascii ''"0.87"'')))\<close>
    by simp
  have i: "IdentifyResponse_init (float_of_str ?E) (JDict (inception_object (JStr (ascii ''0.87'')))) =
     Inr \<lparr>movie_name = ascii ''Inception'', release_date = ascii ''2010-07-16'',
        rationale = ascii ''dream heist'', confidence = 0x3FEBD70A3D70A3D7\<rparr>"
    by (simp add: IdentifyResponse_init_def validate_field_def inception_object_def)
  show ?thesis
    using identify_movie_extracted [OF c completion_of_simps] i by simp
qed

subsection \<open>C4: text that is not JSON\<close>

text \<open>
  C4 (as amended). Suppose \<^verbatim>\<open>json.loads\<close> raises \<^verbatim>\<open>JSONDecodeError\<close> on the trimmed
  completion text. Then the handler raises the HTTPException of the parse stage,
  status 500, whose detail is the fixed sentence followed by the trimmed text, and so
  contains the trimmed text.
\<close>

theorem identify_movie_malformed_response:
  assumes "create ext (length sent) (create_kwargs (build_llm_prompt (User_query req))) = Inr completion"
      and "choices completion = first # others"
      and "content (message first) = Some raw"
      and "json_loads ext (strip raw) = Inl exc"
      and "isinstance_JSONDecodeError exc"
  shows "\<exists>detail. fst (identify_movie ext sent req) = Inl (HTTPException 500 detail) \<and>
           detail = ascii ''Failed to parse response as JSON. Raw response was: '' @ strip raw \<and>
           sublist (strip raw) detail"
  using identify_movie_extracted [OF assms(1-3)] assms(4,5) by simp

text \<open>The example of the specification: the stubbed upstream returns \<open>not json\<close>.\<close>

theorem identify_movie_malformed_response_witness:
  "\<exists>detail.
     fst (identify_movie (stub_extern [Inr (completion_of (ascii ''not json''))] [] []) [] plot_query)
       = Inl (HTTPException 500 detail) \<and>
     detail = ascii ''Failed to parse response as JSON. Raw response was: not json'' \<and>
     sublist (ascii ''not json'') detail"
proof -
  have s: "strip (ascii ''not json'') = ascii ''not json''"
    by (rule strip_id) (simp_all add: ascii_def isspace_def)
  show ?thesis
    using identify_movie_malformed_response
      [where ext = "stub_extern [Inr (completion_of (ascii ''not json''))] [] []"
         and sent = "[]" and req = plot_query
         and completion = "completion_of (ascii ''not json'')"
         and first = "choice_of (ascii ''not json'')" and others = "[]"
         and raw = "ascii ''not json''"
         and exc = "JSONDecodeError (ascii ''Expecting value: line 1 column 1 (char 0)'')"]
    by (simp add: s ascii_append [symmetric])
qed

text \<open>
  C4 as stated fails when the raw completion text ends in whitespace: for the
  completion \<open>not json\<close> followed by a newline the detail holds the trimmed text, and
  the raw text, newline included, does not occur in it.
\<close>

theorem identify_movie_malformed_response_counterexample:
  "json_loads (stub_extern [Inr (completion_of (ascii ''not json\<newline>''))] [] [])
     (strip (ascii ''not json\<newline>''))
     = Inl (JSONDecodeError (ascii ''Expecting value: line 1 column 1 (char 0)'')) \<and>
   fst (identify_movie (stub_extern [Inr (completion_of (ascii ''not json\<newline>''))] [] [])
          [] plot_query)
     = Inl (HTTPException 500
         (ascii ''Failed to parse response as JSON. Raw response was: not json'')) \<and>
   \<not> sublist (ascii ''not json\<newline>'')
       (ascii ''Failed to parse response as JSON. Raw response was: not json'')"
proof -
  let ?E = "stub_extern [Inr (completion_of (ascii ''not json\<newline>''))] [] []"
  have s: "strip (ascii ''not json\<newline>'') = ascii ''not json''"
    by (simp add: strip_def ascii_def isspace_def)
  have c: "create ?E (length []) (create_kwargs (build_llm_prompt (User_query plot_query)))
      = Inr (completion_of (ascii ''not json\<newline>''))"
    by simp
  have o: "fst (identify_movie ?E [] plot_query)
     = Inl (HTTPException 500
         (ascii ''Failed to parse response as JSON. Raw response was: not json''))"
    using identify_movie_extracted [OF c completion_of_simps]
    by (simp add: s ascii_append [symmetric])
  have "10 \<in> set (ascii ''not json\<newline>'')"
    by (simp add: ascii_def)
  moreover have "10 \<notin> set (ascii ''Failed to parse response as JSON. Raw response was: not json'')"
    by (simp add: ascii_def)
  ultimately have n: "\<not> sublist (ascii ''not json\<newline>'')
       (ascii ''Failed to parse response as JSON. Raw response was: not json'')"
    using set_mono_sublist by blast
  show ?thesis
    using o n by simp
qed

subsection \<open>C5: an error of the completion call\<close>

text \<open>
  C5. Suppose the completion call raises an exception \<open>e\<close> that is an instance of
  \<^verbatim>\<open>Exception\<close> (network, authentication, quota and request errors all are). Then the
  handler raises the HTTPException of the call stage, status 500, whose detail
  contains \<open>str(e)\<close>. Exactly one request has been sent, so the call is not retried;
  and the outcome is the same in every environment that answers this one call alike,
  whatever its later answers, its \<^verbatim>\<open>json.loads\<close> and its validation would do, so the
  parse and validation stages are not reached.
\<close>

theorem identify_movie_upstream_error:
  assumes "create ext (length sent) (create_kwargs (build_llm_prompt (User_query req))) = Inl e"
      and "isinstance_Exception e"
  shows "identify_movie ext sent req =
           (Inl (HTTPException 500 (ascii ''OpenAI API error: '' @ exn_str e)),
            sent @ [create_kwargs (build_llm_prompt (User_query req))]) \<and>
         sublist (exn_str e) (ascii ''OpenAI API error: '' @ exn_str e) \<and>
         (\<forall>ext'. create ext' (length sent) = create ext (length sent) \<longrightarrow>
            identify_movie ext' sent req = identify_movie ext sent req)"
  using assms by (simp add: identify_movie_def Let_def)

text \<open>A stubbed upstream whose first call raises a connection error and whose second
  call would return the Inception object: the handler fails after the first.\<close>

theorem identify_movie_upstream_error_witness:
  "identify_movie
     (stub_extern
        [Inl (Exception (ascii ''Connection error.'')),
         Inr (completion_of (inception_text (ascii ''0.87'')))]
        [(inception_text (ascii ''0.87''), JDict (inception_object (JFloat 0x3FEBD70A3D70A3D7)))] [])
     [] plot_query =
   (Inl (HTTPException 500 (ascii ''OpenAI API error: Connection error.'')),
    [create_kwargs (build_llm_prompt (User_query plot_query))])"
  using identify_movie_upstream_error
    [where ext = "stub_extern
        [Inl (Exception (ascii ''Connection error.'')),
         Inr (completion_of (inception_text (ascii ''0.87'')))]
        [(inception_text (ascii ''0.87''), JDict (inception_object (JFloat 0x3FEBD70A3D70A3D7)))] []"
       and sent = "[]" and req = plot_query and e = "Exception (ascii ''Connection error.'')"]
  by (simp add: ascii_append [symmetric])

subsection \<open>C6: every failure the handler raises has status 500\<close>

text \<open>
  C6 (as amended). Whenever the handler raises an HTTPException its status is 500; and
  each of the three failures its \<^verbatim>\<open>except\<close> clauses handle ends in such an exception,
  which carries a detail string: an \<^verbatim>\<open>Exception\<close> of the completion call, a
  \<^verbatim>\<open>JSONDecodeError\<close> of \<^verbatim>\<open>json.loads\<close> on the trimmed text of the first choice, and
  an exception of \<^verbatim>\<open>IdentifyResponse(**result)\<close>.
\<close>

theorem identify_movie_failures_are_status_500:
  "(\<forall>status detail.
      fst (identify_movie ext sent req) = Inl (HTTPException status detail) \<longrightarrow> status = 500) \<and>
   (\<forall>e. create ext (length sent) (create_kwargs (build_llm_prompt (User_query req))) = Inl e \<and>
        isinstance_Exception e \<longrightarrow>
        (\<exists>detail. fst (identify_movie ext sent req) = Inl (HTTPException 500 detail))) \<and>
   (\<forall>completion first others raw.
      create ext (length sent) (create_kwargs (build_llm_prompt (User_query req))) = Inr completion \<and>
      choices completion = first # others \<and> content (message first) = Some raw \<longrightarrow>
      (\<forall>exc. json_loads ext (strip raw) = Inl exc \<and> isinstance_JSONDecodeError exc \<longrightarrow>
         (\<exists>detail. fst (identify_movie ext sent req) = Inl (HTTPException 500 detail))) \<and>
      (\<forall>result exc.
         json_loads ext (strip raw) = Inr result \<and>
         IdentifyResponse_init (float_of_str ext) result = Inl exc \<longrightarrow>
         (\<exists>detail. fst (identify_movie ext sent req) = Inl (HTTPException 500 detail))))"
proof (intro conjI allI impI)
  fix status detail
  assume "fst (identify_movie ext sent req) = Inl (HTTPException status detail)"
  then show "status = 500"
    by (auto simp: identify_movie_def Let_def
        split: sum.splits list.splits option.splits if_splits)
next
  fix e
  assume "create ext (length sent) (create_kwargs (build_llm_prompt (User_query req))) = Inl e \<and>
        isinstance_Exception e"
  then show "\<exists>detail. fst (identify_movie ext sent req) = Inl (HTTPException 500 detail)"
    by (simp add: identify_movie_def Let_def)
next
  fix completion first others raw exc
  assume "create ext (length sent) (create_kwargs (build_llm_prompt (User_query req))) = Inr completion \<and>
      choices completion = first # others \<and> content (message first) = Some raw"
    and "json_loads ext (strip raw) = Inl exc \<and> isinstance_JSONDecodeError exc"
  then show "\<exists>detail. fst (identify_movie ext sent req) = Inl (HTTPException 500 detail)"
    using identify_movie_extracted [of ext sent req completion first others raw] by simp
next
  fix completion first others raw result exc
  assume "create ext (length sent) (create_kwargs (build_llm_prompt (User_query req))) = Inr completion \<and>
      choices completion = first # others \<and> content (message first) = Some raw"
    and "json_loads ext (strip raw) = Inr result \<and>
         IdentifyResponse_init (float_of_str ext) result = Inl exc"
  then show "\<exists>detail. fst (identify_movie ext sent req) = Inl (HTTPException 500 detail)"
    using identify_movie_extracted [of ext sent req completion first others raw] by simp
qed

text \<open>One run for each failure: the upstream raises, it returns \<open>not json\<close>, it
  returns an object without \<open>confidence\<close>.\<close>

theorem identify_movie_failures_are_status_500_witness:
  "(\<exists>detail.
      fst (identify_movie (stub_extern [Inl (Exception (ascii ''Connection error.''))] [] [])
             [] plot_query) = Inl (HTTPException 500 detail)) \<and>
   (\<exists>detail.
      fst (identify_movie (stub_extern [Inr (completion_of (ascii ''not json''))] [] [])
             [] plot_query) = Inl (HTTPException 500 detail)) \<and>
   (\<exists>detail.
      fst (identify_movie
             (stub_extern [Inr (completion_of missing_confidence_text)]
                [(missing_confidence_text, JDict missing_confidence_object)] [])
             [] plot_query) = Inl (HTTPException 500 detail))"
proof (intro conjI)
  show "\<exists>detail.
      fst (identify_movie (stub_extern [Inl (Exception (ascii ''Connection error.''))] [] [])
             [] plot_query) = Inl (HTTPException 500 detail)"
    using identify_movie_failures_are_status_500
      [of "stub_extern [Inl (Exception (ascii ''Connection error.''))] [] []" "[]" plot_query]
    by simp
next
  show "\<exists>detail.
      fst (identify_movie (stub_extern [Inr (completion_of (ascii ''not json''))] [] [])
             [] plot_query) = Inl (HTTPException 500 detail)"
    using identify_movie_failures_are_status_500
      [of "stub_extern [Inr (completion_of (ascii ''not json''))] [] []" "[]" plot_query]
    by (simp add: completion_of_def choice_of_def)
next
  have "IdentifyResponse_init Map.empty (JDict missing_confidence_object) =
      Inl (ValidationError [(ascii ''confidence'', Missing)])"
    by (simp add: IdentifyResponse_init_def validate_field_def missing_confidence_object_def)
  then show "\<exists>detail.
      fst (identify_movie
             (stub_extern [Inr (completion_of missing_confidence_text)]
                [(missing_confidence_text, JDict missing_confidence_object)] [])
             [] plot_query) = Inl (HTTPException 500 detail)"
    using identify_movie_failures_are_status_500
      [of "stub_extern [Inr (completion_of missing_confidence_text)]
                [(missing_confidence_text, JDict missing_confidence_object)] []" "[]" plot_query]
    by (simp add: completion_of_def choice_of_def)
qed

text \<open>
  C6 as stated, for every failure of the handler, fails: line 129 stands outside every
  \<^verbatim>\<open>try\<close>, so a completion with no choices ends the handler with an
  \<^verbatim>\<open>IndexError\<close>, and a first choice without content with an \<^verbatim>\<open>AttributeError\<close>;
  neither is an HTTPException with a detail.
\<close>

theorem identify_movie_uncaught_counterexample:
  "fst (identify_movie (stub_extern [Inr \<lparr>choices = []\<rparr>] [] []) [] plot_query) = Inl IndexError \<and>
   fst (identify_movie
          (stub_extern [Inr \<lparr>choices = [\<lparr>message = \<lparr>content = None\<rparr>\<rparr>]\<rparr>] [] [])
          [] plot_query) = Inl AttributeError"
  by (simp add: identify_movie_def Let_def)

subsection \<open>C7: the text is trimmed before it is parsed\<close>

text \<open>
  C7. Suppose the first choice's text is a JSON object text (an opening brace, any
  middle, a closing brace) with whitespace before and after it, and \<^verbatim>\<open>json.loads\<close>
  accepts the object text. Then \<^verbatim>\<open>json.loads\<close> is given the object text alone: the
  outcome of the handler is the outcome of validating the parsed value, and it is not
  the HTTPException of the parse stage.
\<close>

theorem identify_movie_strips_before_parsing:
  assumes "create ext (length sent) (create_kwargs (build_llm_prompt (User_query req))) = Inr completion"
      and "choices completion = first # others"
      and "content (message first) = Some (ws1 @ (ascii ''{'' @ mid @ ascii ''}'') @ ws2)"
      and "\<forall>c\<in>set ws1. isspace c"
      and "\<forall>c\<in>set ws2. isspace c"
      and "json_loads ext (ascii ''{'' @ mid @ ascii ''}'') = Inr result"
  shows "fst (identify_movie ext sent req) =
           (case IdentifyResponse_init (float_of_str ext) result of
              Inl exc \<Rightarrow>
                Inl (HTTPException 500
                  (ascii ''Response JSON missing required fields or invalid types: ''
                   @ exc_str ext exc))
            | Inr response \<Rightarrow> Inr response) \<and>
         (\<forall>tail. fst (identify_movie ext sent req) \<noteq>
            Inl (HTTPException 500
              (ascii ''Failed to parse response as JSON. Raw response was: '' @ tail)))"
proof -
  have "strip (ws1 @ (ascii ''{'' @ mid @ ascii ''}'') @ ws2) = ascii ''{'' @ mid @ ascii ''}''"
    using assms(4,5) by (rule strip_braces)
  then have "fst (identify_movie ext sent req) =
           (case IdentifyResponse_init (float_of_str ext) result of
              Inl exc \<Rightarrow>
                Inl (HTTPException 500
                  (ascii ''Response JSON missing required fields or invalid types: ''
                   @ exc_str ext exc))
            | Inr response \<Rightarrow> Inr response)"
    using identify_movie_extracted [OF assms(1-3)] assms(6) by simp
  then show ?thesis
    by (simp add: detail_prefixes_differ split: sum.splits)
qed

text \<open>The Inception object between a newline and two spaces, and a space and a
  newline.\<close>

theorem identify_movie_strips_before_parsing_witness:
  "fst (identify_movie
      (stub_extern
         [Inr (completion_of
            (ascii ''\<newline>  '' @ inception_text (ascii ''0.87'') @ ascii '' \<newline>''))]
         [(inception_text (ascii ''0.87''), JDict (inception_object (JFloat 0x3FEBD70A3D70A3D7)))] [])
      [] plot_query) =
   Inr \<lparr>movie_name = ascii ''Inception'', release_date = ascii ''2010-07-16'',
        rationale = ascii ''dream heist'', confidence = 0x3FEBD70A3D70A3D7\<rparr>"
proof -
  let ?raw = "ascii ''\<newline>  '' @ inception_text (ascii ''0.87'') @ ascii '' \<newline>''"
  let ?E = "stub_extern [Inr (completion_of ?raw)]
         [(inception_text (ascii ''0.87''), JDict (inception_object (JFloat 0x3FEBD70A3D70A3D7)))] []"
  have c: "create ?E (length []) (create_kwargs (build_llm_prompt (User_query plot_query)))
      = Inr (completion_of ?raw)"
    by simp
  have ch: "choices (completion_of ?raw) = choice_of ?raw # []"
    by simp
  have co: \<open>content (message (choice_of ?raw)) = Some (ascii ''\<newline>  '' @ (ascii ''{'' @
     (ascii ''"movie_name":"Inception","release_date":"2010-07-16","rationale":"dream heist","confidence":''
      @ ascii ''0.87'') @ ascii ''}'') @ ascii '' \<newline>'')\<close>
    by (simp add: inception_text_braces)
  have w1: "\<forall>c\<in>set (ascii ''\<newline>  ''). isspace c"
    by (simp add: ascii_def isspace_def)
  have w2: "\<forall>c\<in>set (ascii '' \<newline>''). isspace c"
    by (simp add: ascii_def isspace_def)
  have l: \<open>json_loads ?E (ascii ''{'' @
     (ascii ''"movie_name":"Inception","release_date":"2010-07-16","rationale":"dream heist","confidence":''
      @ ascii ''0.87'') @ ascii ''}'') = Inr (JDict (inception_object (JFloat 0x3FEBD70A3D70A3D7)))\<close>
    by (subst inception_text_braces [symmetric]) simp
  show ?thesis
    using identify_movie_strips_before_parsing [OF c ch co w1 w2 l]
    by (simp add: IdentifyResponse_init_inception)
qed

subsection \<open>C9: additional keys are ignored\<close>

text \<open>
  C9 (as amended). Suppose the trimmed completion text parses as a JSON object that
  holds the four fields with the right types, the confidence being a float or an
  integer that Python converts to a float, on top of any other keys \<open>extra\<close>. Then
  validation succeeds and the handler returns the response made of the four fields;
  the other keys have no effect.
\<close>

theorem identify_movie_ignores_extra_keys:
  assumes "create ext (length sent) (create_kwargs (build_llm_prompt (User_query req))) = Inr completion"
      and "choices completion = first # others"
      and "content (message first) = Some raw"
      and "json_loads ext (strip raw) =
             Inr (JDict (extra ++
               [ascii ''movie_name'' \<mapsto> JStr a,
                ascii ''release_date'' \<mapsto> JStr b,
                ascii ''rationale'' \<mapsto> JStr c,
                ascii ''confidence'' \<mapsto> v]))"
      and "v = JFloat x \<or> (\<exists>n. v = JInt n \<and> float_of_int n = Some x)"
  shows "fst (identify_movie ext sent req) =
           Inr \<lparr>movie_name = a, release_date = b, rationale = c, confidence = x\<rparr>"
proof -
  have "validate_float (float_of_str ext) v = Inr x"
    using assms(5) by auto
  then have "IdentifyResponse_init (float_of_str ext)
       (JDict (extra ++
               [ascii ''movie_name'' \<mapsto> JStr a,
                ascii ''release_date'' \<mapsto> JStr b,
                ascii ''rationale'' \<mapsto> JStr c,
                ascii ''confidence'' \<mapsto> v])) =
      Inr \<lparr>movie_name = a, release_date = b, rationale = c, confidence = x\<rparr>"
    by (intro IdentifyResponse_init_valid [where v = v]) (simp_all add: map_add_def)
  then show ?thesis
    using identify_movie_extracted [OF assms(1-3)] assms(4) by simp
qed

text \<open>The Inception object with the additional key \<open>year\<close>, once with the
  confidence 0.87 and once with the integer confidence 1, returned as 1.0 (the double
  \<open>0x3FF0000000000000\<close>).\<close>

theorem identify_movie_ignores_extra_keys_witness:
  "fst (identify_movie
      (stub_extern [Inr (completion_of extra_key_text)]
         [(extra_key_text,
           JDict ([ascii ''year'' \<mapsto> JInt 2010] ++
               [ascii ''movie_name'' \<mapsto> JStr (ascii ''Inception''),
                ascii ''release_date'' \<mapsto> JStr (ascii ''2010-07-16''),
                ascii ''rationale'' \<mapsto> JStr (ascii ''dream heist''),
                ascii ''confidence'' \<mapsto> JFloat 0x3FEBD70A3D70A3D7]))] [])
      [] plot_query) =
   Inr \<lparr>movie_name = ascii ''Inception'', release_date = ascii ''2010-07-16'',
        rationale = ascii ''dream heist'', confidence = 0x3FEBD70A3D70A3D7\<rparr> \<and>
   fst (identify_movie
      (stub_extern [Inr (completion_of int_extra_key_text)]
         [(int_extra_key_text,
           JDict ([ascii ''year'' \<mapsto> JInt 2010] ++
               [ascii ''movie_name'' \<mapsto> JStr (ascii ''Inception''),
                ascii ''release_date'' \<mapsto> JStr (ascii ''2010-07-16''),
                ascii ''rationale'' \<mapsto> JStr (ascii ''dream heist''),
                ascii ''confidence'' \<mapsto> JInt 1]))] [])
      [] plot_query) =
   Inr \<lparr>movie_name = ascii ''Inception'', release_date = ascii ''2010-07-16'',
        rationale = ascii ''dream heist'', confidence = 0x3FF0000000000000\<rparr>"
proof (rule conjI)
  show "fst (identify_movie
      (stub_extern [Inr (completion_of extra_key_text)]
         [(extra_key_text,
           JDict ([ascii ''year'' \<mapsto> JInt 2010] ++
               [ascii ''movie_name'' \<mapsto> JStr (ascii ''Inception''),
                ascii ''release_date'' \<mapsto> JStr (ascii ''2010-07-16''),
                ascii ''rationale'' \<mapsto> JStr (ascii ''dream heist''),
                ascii ''confidence'' \<mapsto> JFloat 0x3FEBD70A3D70A3D7]))] [])
      [] plot_query) =
   Inr \<lparr>movie_name = ascii ''Inception'', release_date = ascii ''2010-07-16'',
        rationale = ascii ''dream heist'', confidence = 0x3FEBD70A3D70A3D7\<rparr>"
    by (rule identify_movie_ignores_extra_keys
          [where completion = "completion_of extra_key_text"
             and first = "choice_of extra_key_text" and others = "[]"
             and raw = extra_key_text
             and extra = "[ascii ''year'' \<mapsto> JInt 2010]"
             and v = "JFloat 0x3FEBD70A3D70A3D7"])
       simp_all
next
  show "fst (identify_movie
      (stub_extern [Inr (completion_of int_extra_key_text)]
         [(int_extra_key_text,
           JDict ([ascii ''year'' \<mapsto> JInt 2010] ++
               [ascii ''movie_name'' \<mapsto> JStr (ascii ''Inception''),
                ascii ''release_date'' \<mapsto> JStr (ascii ''2010-07-16''),
                ascii ''rationale'' \<mapsto> JStr (ascii ''dream heist''),
                ascii ''confidence'' \<mapsto> JInt 1]))] [])
      [] plot_query) =
   Inr \<lparr>movie_name = ascii ''Inception'', release_date = ascii ''2010-07-16'',
        rationale = ascii ''dream heist'', confidence = 0x3FF0000000000000\<rparr>"
    by (rule identify_movie_ignores_extra_keys
          [where completion = "completion_of int_extra_key_text"
             and first = "choice_of int_extra_key_text" and others = "[]"
             and raw = int_extra_key_text
             and extra = "[ascii ''year'' \<mapsto> JInt 2010]"
             and v = "JInt 1"])
       (simp_all add: float_of_int_1)
qed

text \<open>
  C9 as stated, for every confidence of the right type, fails for an integer too large
  for a float: the object holds the three strings, the integer \<open>10 ^ 309\<close> and the
  additional key \<open>year\<close>, and the handler raises the HTTPException of the validation
  stage instead of returning.
\<close>

theorem identify_movie_extra_keys_big_int_counterexample:
  "json_loads
     (stub_extern [Inr (completion_of big_int_extra_key_text)]
        [(big_int_extra_key_text,
          JDict ([ascii ''year'' \<mapsto> JInt 2010] ++ inception_object (JInt (10 ^ 309))))] [])
     (strip big_int_extra_key_text) =
     Inr (JDict ([ascii ''year'' \<mapsto> JInt 2010] ++ inception_object (JInt (10 ^ 309)))) \<and>
   fst (identify_movie
      (stub_extern [Inr (completion_of big_int_extra_key_text)]
         [(big_int_extra_key_text,
           JDict ([ascii ''year'' \<mapsto> JInt 2010] ++ inception_object (JInt (10 ^ 309))))] [])
      [] plot_query) =
   Inl (HTTPException 500
     (ascii ''Response JSON missing required fields or invalid types: ''
      @ stub_exc_str (ValidationError [(ascii ''confidence'', Float_type)])))"
proof -
  let ?K = "[ascii ''year'' \<mapsto> JInt 2010] ++ inception_object (JInt (10 ^ 309))"
  let ?E = "stub_extern [Inr (completion_of big_int_extra_key_text)]
        [(big_int_extra_key_text, JDict ?K)] []"
  have l: "json_loads ?E (strip big_int_extra_key_text) = Inr (JDict ?K)"
    by (simp only: stub_fields strip_big_int_extra_key_text stub_loads_hit)
  have c: "create ?E (length []) (create_kwargs (build_llm_prompt (User_query plot_query)))
      = Inr (completion_of big_int_extra_key_text)"
    by (simp only: list.size stub_create_first)
  have i: "IdentifyResponse_init fos (JDict ?K) =
      Inl (ValidationError [(ascii ''confidence'', Float_type)])" for fos
    using float_of_int_10_309
    by (simp add: IdentifyResponse_init_def validate_field_def inception_object_def map_add_def)
  have "fst (identify_movie ?E [] plot_query) =
      Inl (HTTPException 500
       (ascii ''Response JSON missing required fields or invalid types: ''
        @ exc_str ?E (ValidationError [(ascii ''confidence'', Float_type)])))"
    by (simp only: identify_movie_extracted [OF c completion_of_simps] l i sum.case)
  then show ?thesis
    using l by (simp only: stub_fields simp_thms)
qed

subsection \<open>C10: valid JSON that is not an object\<close>

text \<open>
  C10. Suppose \<^verbatim>\<open>json.loads\<close> returns, for the trimmed completion text, a value that is
  not an object (null, a boolean, a number, a string or an array). Then the parse stage
  has succeeded and the handler fails at the validation stage: it raises the
  HTTPException with the detail of that stage, carrying the text of the
  \<^verbatim>\<open>TypeError\<close> of \<^verbatim>\<open>IdentifyResponse(**result)\<close>, and not the one of the parse stage.
\<close>

theorem identify_movie_non_object:
  assumes "create ext (length sent) (create_kwargs (build_llm_prompt (User_query req))) = Inr completion"
      and "choices completion = first # others"
      and "content (message first) = Some raw"
      and "json_loads ext (strip raw) = Inr result"
      and "\<forall>kwargs. result \<noteq> JDict kwargs"
  shows "fst (identify_movie ext sent req) =
           Inl (HTTPException 500
             (ascii ''Response JSON missing required fields or invalid types: ''
              @ exc_str ext TypeError)) \<and>
         (\<forall>tail. fst (identify_movie ext sent req) \<noteq>
            Inl (HTTPException 500
              (ascii ''Failed to parse response as JSON. Raw response was: '' @ tail)))"
proof -
  have "IdentifyResponse_init (float_of_str ext) result = Inl TypeError"
    using assms(5) by (cases result) (simp_all add: IdentifyResponse_init_def)
  then show ?thesis
    using identify_movie_extracted [OF assms(1-3)] assms(4)
    by (simp add: detail_prefixes_differ)
qed

text \<open>The stubbed upstream returns the JSON array \<open>[1, 2]\<close>.\<close>

theorem identify_movie_non_object_witness:
  "fst (identify_movie
      (stub_extern [Inr (completion_of (ascii ''[1, 2]''))]
         [(ascii ''[1, 2]'', JList [JInt 1, JInt 2])] [])
      [] plot_query) =
   Inl (HTTPException 500
     (ascii ''Response JSON missing required fields or invalid types: argument after ** must be a mapping''))"
proof -
  have s: "strip (ascii ''[1, 2]'') = ascii ''[1, 2]''"
    by (rule strip_id) (simp_all add: ascii_def isspace_def)
  show ?thesis
    using identify_movie_non_object
      [where ext = "stub_extern [Inr (completion_of (ascii ''[1, 2]''))]
           [(ascii ''[1, 2]'', JList [JInt 1, JInt 2])] []"
         and sent = "[]" and req = plot_query
         and completion = "completion_of (ascii ''[1, 2]'')"
         and first = "choice_of (ascii ''[1, 2]'')" and others = "[]"
         and raw = "ascii ''[1, 2]''" and result = "JList [JInt 1, JInt 2]"]
    by (simp add: s ascii_append [symmetric])
qed

end
